theory Spec2Isabelle
  imports Main
begin

section \<open>Arrays, held by reference\<close>

text \<open>
  JavaScript arrays are objects: two variables may name the same array, and
  \<^verbatim>\<open>push\<close> changes it for both. The model keeps every array of strings in a store and
  passes references around, as the program does.
\<close>

type_synonym ref = nat

record store =
  cells :: "ref \<Rightarrow> string list"
  fresh :: ref

definition new_array :: "string list \<Rightarrow> store \<Rightarrow> ref \<times> store" where
  \<comment> \<open>an array literal, or an array returned fresh by a library function\<close>
  "new_array xs s = (fresh s, s\<lparr>cells := (cells s)(fresh s := xs), fresh := Suc (fresh s)\<rparr>)"

definition push :: "ref \<Rightarrow> string \<Rightarrow> store \<Rightarrow> store" where
  \<comment> \<open>\<^verbatim>\<open>a.push(x)\<close>: in place\<close>
  "push a x s = s\<lparr>cells := (cells s)(a := cells s a @ [x])\<rparr>"

definition deref :: "store \<Rightarrow> ref option \<Rightarrow> string list option" where
  \<comment> \<open>the contents behind an attribute value; \<open>None\<close> is \<^verbatim>\<open>undefined\<close>\<close>
  "deref s v = (case v of None \<Rightarrow> None | Some r \<Rightarrow> Some (cells s r))"

section \<open>Underscore.js 1.8.3, as far as the program calls it\<close>

definition contains :: "string list option \<Rightarrow> string \<Rightarrow> bool" where
  \<comment> \<open>\<^verbatim>\<open>_.contains(obj, item)\<close>; \<^verbatim>\<open>undefined\<close> has no values, so the answer is false\<close>
  "contains obj item = (case obj of None \<Rightarrow> False | Some xs \<Rightarrow> item \<in> set xs)"

definition without :: "string list \<Rightarrow> string \<Rightarrow> string list" where
  \<comment> \<open>\<^verbatim>\<open>_.without(array, value)\<close>: a copy with every occurrence removed, order kept\<close>
  "without xs x = filter (\<lambda>y. y \<noteq> x) xs"

definition isEqual :: "string list option \<Rightarrow> string list option \<Rightarrow> bool" where
  \<comment> \<open>\<^verbatim>\<open>_.isEqual\<close> on arrays of strings (or \<^verbatim>\<open>undefined\<close>): deep comparison\<close>
  "isEqual a b = (a = b)"

text \<open>
  The attributes hash of the program has two keys, \<^verbatim>\<open>options\<close> and \<^verbatim>\<open>checked\<close>;
  a key that is absent (or \<^verbatim>\<open>undefined\<close>) is \<open>None\<close>.
\<close>

record attrs =
  attr_options :: "ref option"
  attr_checked :: "ref option"

definition empty_object :: attrs where
  "empty_object = \<lparr>attr_options = None, attr_checked = None\<rparr>"

definition extend_hash :: "attrs \<Rightarrow> attrs \<Rightarrow> attrs" where
  \<comment> \<open>\<^verbatim>\<open>_.extend(dst, src)\<close>: the keys of \<open>src\<close> overwrite those of \<open>dst\<close>\<close>
  "extend_hash dst src =
     \<lparr>attr_options = (case attr_options src of None \<Rightarrow> attr_options dst | Some r \<Rightarrow> Some r),
      attr_checked = (case attr_checked src of None \<Rightarrow> attr_checked dst | Some r \<Rightarrow> Some r)\<rparr>"

definition defaults :: "attrs \<Rightarrow> attrs \<Rightarrow> attrs" where
  \<comment> \<open>\<^verbatim>\<open>_.defaults(obj, src)\<close>: only the undefined keys of \<open>obj\<close> are filled, by reference\<close>
  "defaults obj src =
     \<lparr>attr_options = (case attr_options obj of None \<Rightarrow> attr_options src | Some r \<Rightarrow> Some r),
      attr_checked = (case attr_checked obj of None \<Rightarrow> attr_checked src | Some r \<Rightarrow> Some r)\<rparr>"

section \<open>The model object and the rendering target\<close>

datatype handler = UpdateChecked | Render

record model =
  attributes :: attrs
  previousAttributes :: attrs
  changing :: bool
  pending :: bool
  events :: "handler list"

record control =
  cvalue :: string
  cchecked :: bool

text \<open>
  A delivery records one call of a \<^verbatim>\<open>change:checked\<close> handler: who was called, the
  contents of the array passed as the event's value, and what \<^verbatim>\<open>model.get('checked')\<close>
  held at that moment. The list of deliveries is a trace kept beside the program state; no
  function of the program reads it.
\<close>

record delivery =
  receiver :: handler
  argument :: "string list"
  observed :: "string list option"

record world =
  heap :: store
  mdl :: model
  el :: "control list"
  delivered :: "delivery list"

definition get_options :: "world \<Rightarrow> string list option" where
  "get_options w = deref (heap w) (attr_options (attributes (mdl w)))"

definition get_checked :: "world \<Rightarrow> string list option" where
  "get_checked w = deref (heap w) (attr_checked (attributes (mdl w)))"

definition previous_checked :: "world \<Rightarrow> string list option" where
  \<comment> \<open>\<^verbatim>\<open>this.previous('checked')\<close>\<close>
  "previous_checked w = deref (heap w) (attr_checked (previousAttributes (mdl w)))"

definition note_delivery :: "handler \<Rightarrow> ref \<Rightarrow> world \<Rightarrow> world" where
  "note_delivery h val w =
     w\<lparr>delivered := delivered w @
        [\<lparr>receiver = h, argument = cells (heap w) val, observed = get_checked w\<rparr>]\<rparr>"

section \<open>views/control-color.js: render\<close>

definition render :: "world \<Rightarrow> world" where
  "render w =
     (let checked = get_checked w;
          items = map (\<lambda>option. \<lparr>cvalue = option, cchecked = contains checked option\<rparr>)
                      (case get_options w of None \<Rightarrow> [] | Some os \<Rightarrow> os)
      in w\<lparr>el := items\<rparr>)"

section \<open>Backbone.js 1.3.3 \<^verbatim>\<open>Model.set\<close> on the key \<^verbatim>\<open>checked\<close>, and models/control-color.js: updateChecked\<close>

text \<open>
  \<^verbatim>\<open>set\<close> stores the value, and unless it is silent or the value is deep-equal to the
  current one it triggers \<^verbatim>\<open>change:checked\<close>, which calls the handlers in the order
  they were bound, all with the same value argument. The outermost call alone takes the
  snapshot of the previous attributes and clears the flags at its end. The program binds
  nothing to the plain \<^verbatim>\<open>change\<close> event, so the loop over pending changes only clears
  the flag. \<^verbatim>\<open>updateChecked\<close> calls \<^verbatim>\<open>set\<close> again, silently, from inside the trigger.
\<close>

function set_checked :: "ref \<Rightarrow> bool \<Rightarrow> world \<Rightarrow> world"
  and trigger_change_checked :: "handler list \<Rightarrow> ref \<Rightarrow> world \<Rightarrow> world"
  and updateChecked :: "ref \<Rightarrow> world \<Rightarrow> world"
where
  "set_checked val silent w =
     (let was_changing = changing (mdl w);
          w1 = w\<lparr>mdl := (mdl w)\<lparr>changing := True\<rparr>\<rparr>;
          w2 = (if \<not> was_changing
                then w1\<lparr>mdl := (mdl w1)\<lparr>previousAttributes := attributes (mdl w1)\<rparr>\<rparr>
                else w1);
          changes = (\<not> isEqual (get_checked w2) (Some (cells (heap w2) val)));
          w3 = w2\<lparr>mdl := (mdl w2)\<lparr>attributes := (attributes (mdl w2))\<lparr>attr_checked := Some val\<rparr>\<rparr>\<rparr>;
          w4 = (if \<not> silent \<and> changes
                then trigger_change_checked (events (mdl w3)) val
                       (w3\<lparr>mdl := (mdl w3)\<lparr>pending := True\<rparr>\<rparr>)
                else w3)
      in if was_changing then w4
         else w4\<lparr>mdl := (mdl w4)\<lparr>pending := False, changing := False\<rparr>\<rparr>)"
| "trigger_change_checked [] val w = w"
| "trigger_change_checked (h # hs) val w =
     trigger_change_checked hs val
       (case h of
          UpdateChecked \<Rightarrow> updateChecked val (note_delivery h val w)
        | Render \<Rightarrow> render (note_delivery h val w))"
| "updateChecked checked w =
     (if contains (Some (cells (heap w) checked)) ''all''
      then (let (itemsToCheck, s) =
                  (if contains (previous_checked w) ''all''
                   then new_array (without (cells (heap w) checked) ''all'') (heap w)
                   else new_array [''all''] (heap w))
            in set_checked itemsToCheck True (w\<lparr>heap := s\<rparr>))
      else w)"
  by pat_completeness auto

text \<open>
  The recursion ends: only a call that is not silent triggers, a trigger walks down its
  list of handlers, and \<^verbatim>\<open>updateChecked\<close> only ever calls \<^verbatim>\<open>set\<close> silently.
\<close>

termination
  by (relation "measure (\<lambda>x. case x of
            Inl (val, silent, w) \<Rightarrow> (if silent then 0 else length (events (mdl w)) + 3)
          | Inr (Inl (hs, val, w)) \<Rightarrow> length hs + 2
          | Inr (Inr (checked, w)) \<Rightarrow> 1)") auto

section \<open>Backbone.js 1.3.3: constructing a model\<close>

text \<open>
  The constructor merges the caller's attributes over the class defaults into a new hash
  (the arrays themselves are shared, not copied), stores it with \<^verbatim>\<open>set\<close> while no
  handler is bound yet, and only then calls \<^verbatim>\<open>initialize\<close> with the caller's own
  arguments. The first \<^verbatim>\<open>set\<close> snapshots the still empty attributes.
\<close>

definition Model_constructor :: "attrs \<Rightarrow> attrs option \<Rightarrow> model" where
  "Model_constructor class_defaults attributes_arg =
     (let attrs = (case attributes_arg of None \<Rightarrow> empty_object | Some a \<Rightarrow> a);
          attrs = defaults (extend_hash (extend_hash empty_object class_defaults) attrs) class_defaults
      in \<lparr>attributes = attrs, previousAttributes = empty_object,
          changing = False, pending = False, events = []\<rparr>)"

section \<open>models/control-color.js\<close>

text \<open>
  The \<^verbatim>\<open>defaults\<close> hash is a property of the prototype, created once when the script
  is loaded: its two arrays live at fixed references, shared by every instance.
\<close>

definition defaults_options :: ref where
  "defaults_options = 0"

definition defaults_checked :: ref where
  "defaults_checked = 1"

definition ControlColor_defaults :: attrs where
  "ControlColor_defaults =
     \<lparr>attr_options = Some defaults_options, attr_checked = Some defaults_checked\<rparr>"

definition script_loaded :: store where
  "script_loaded =
     \<lparr>cells = (\<lambda>r. [])(defaults_options := [], defaults_checked := [''all'']), fresh = 2\<rparr>"

definition initialize :: "attrs option \<Rightarrow> model \<Rightarrow> store \<Rightarrow> attrs \<times> model \<times> store" where
  \<comment> \<open>returns the caller's hash as \<^verbatim>\<open>_.defaults\<close> leaves it, the model and the store;
      \<^verbatim>\<open>attrs.options\<close> is never undefined after the defaults are filled in\<close>
  "initialize attrs_arg m s =
     (let attrs = defaults (case attrs_arg of None \<Rightarrow> empty_object | Some a \<Rightarrow> a)
                           ControlColor_defaults;
          s = (case attr_options attrs of None \<Rightarrow> s | Some a \<Rightarrow> push a ''all'' s)
      in (attrs, m\<lparr>events := events m @ [UpdateChecked]\<rparr>, s))"

definition ControlColor_new :: "attrs option \<Rightarrow> store \<Rightarrow> attrs \<times> model \<times> store" where
  \<comment> \<open>\<^verbatim>\<open>new window.ControlColor(attrs)\<close>\<close>
  "ControlColor_new attrs_arg s =
     initialize attrs_arg (Model_constructor ControlColor_defaults attrs_arg) s"

definition Backbone_Model_new :: "attrs option \<Rightarrow> model" where
  \<comment> \<open>\<^verbatim>\<open>new Backbone.Model(attrs)\<close>, the plain model of the view's tests: no defaults,
      an empty \<^verbatim>\<open>initialize\<close>\<close>
  "Backbone_Model_new attrs_arg = Model_constructor empty_object attrs_arg"

section \<open>views/control-color.js\<close>

definition View_initialize :: "world \<Rightarrow> world" where
  \<comment> \<open>the view's \<^verbatim>\<open>initialize\<close>:
      \<^verbatim>\<open>this.listenTo(this.model, 'change:checked', this.render)\<close>\<close>
  "View_initialize w = w\<lparr>mdl := (mdl w)\<lparr>events := events (mdl w) @ [Render]\<rparr>\<rparr>"

definition pluck_value :: "control list \<Rightarrow> string list" where
  \<comment> \<open>\<^verbatim>\<open>_.pluck(controls, 'value')\<close>\<close>
  "pluck_value cs = map cvalue cs"

definition handleChange :: "world \<Rightarrow> world" where
  \<comment> \<open>the selector keeps the controls of the target that are checked, in document order\<close>
  "handleChange w =
     (let (checked, s) = new_array (pluck_value (filter cchecked (el w))) (heap w)
      in set_checked checked False (w\<lparr>heap := s\<rparr>))"

section \<open>Callers\<close>

definition setChecked :: "string list \<Rightarrow> world \<Rightarrow> world" where
  \<comment> \<open>\<^verbatim>\<open>model.set('checked', [ ... ])\<close> with an array literal\<close>
  "setChecked newChecked w =
     (let (r, s) = new_array newChecked (heap w)
      in set_checked r False (w\<lparr>heap := s\<rparr>))"

fun setChecked_all :: "string list list \<Rightarrow> world \<Rightarrow> world" where
  "setChecked_all [] w = w"
| "setChecked_all (c # cs) w = setChecked_all cs (setChecked c w)"

definition world_of :: "attrs \<times> model \<times> store \<Rightarrow> world" where
  \<comment> \<open>the page once a model has been constructed: nothing rendered, nothing delivered\<close>
  "world_of x = (case x of (attrs, m, s) \<Rightarrow> \<lparr>heap = s, mdl = m, el = [], delivered = []\<rparr>)"

definition literals :: "string list option \<Rightarrow> string list option \<Rightarrow> store \<Rightarrow> attrs \<times> store" where
  \<comment> \<open>the hash \<^verbatim>\<open>{ options: [ ... ], checked: [ ... ] }\<close>, each key given or left out;
      every array literal is a new array\<close>
  "literals opts chk s =
     (let (o_ref, s) = (case opts of None \<Rightarrow> (None, s)
                        | Some xs \<Rightarrow> (let (r, s') = new_array xs s in (Some r, s')));
          (c_ref, s) = (case chk of None \<Rightarrow> (None, s)
                        | Some xs \<Rightarrow> (let (r, s') = new_array xs s in (Some r, s')))
      in (\<lparr>attr_options = o_ref, attr_checked = c_ref\<rparr>, s))"

definition ControlColor_with :: "string list option \<Rightarrow> string list option \<Rightarrow> store \<Rightarrow> world" where
  \<comment> \<open>\<^verbatim>\<open>new window.ControlColor({ options: [ ... ], checked: [ ... ] })\<close>\<close>
  "ControlColor_with opts chk s =
     (let (a, s) = literals opts chk s in world_of (ControlColor_new (Some a) s))"

definition Backbone_Model_with :: "string list option \<Rightarrow> string list option \<Rightarrow> store \<Rightarrow> world" where
  \<comment> \<open>\<^verbatim>\<open>new Backbone.Model({ options: [ ... ], checked: [ ... ] })\<close>\<close>
  "Backbone_Model_with opts chk s =
     (let (a, s) = literals opts chk s in world_of (a, Backbone_Model_new (Some a), s))"

definition prop_checked :: "string \<Rightarrow> bool \<Rightarrow> world \<Rightarrow> world" where
  \<comment> \<open>the user (or a test) sets the checked flag of the controls carrying a value\<close>
  "prop_checked v b w =
     w\<lparr>el := map (\<lambda>c. if cvalue c = v then c\<lparr>cchecked := b\<rparr> else c) (el w)\<rparr>"

section \<open>The reconciliation rule as the specification words it\<close>

definition spec_reconcile :: "string list \<Rightarrow> string list \<Rightarrow> string list" where
  "spec_reconcile previous newChecked =
     (if ''all'' \<in> set newChecked
      then (if ''all'' \<in> set previous then removeAll ''all'' newChecked else [''all''])
      else newChecked)"

definition all_exclusive :: "string list \<Rightarrow> bool" where
  "all_exclusive xs = (xs = [''all''] \<or> ''all'' \<notin> set xs)"

section \<open>States the program reaches between calls\<close>

text \<open>
  Between two calls from outside, a \<^verbatim>\<open>ControlColor\<close> is not in the middle of a
  \<^verbatim>\<open>set\<close>, its own handler is bound first (by \<^verbatim>\<open>initialize\<close>), the view's
  \<^verbatim>\<open>render\<close> after it if a view was created, and the arrays it holds have been allocated.
\<close>

definition allocated :: "store \<Rightarrow> ref option \<Rightarrow> bool" where
  "allocated s v = (case v of None \<Rightarrow> False | Some r \<Rightarrow> r < fresh s)"

definition loaded :: "store \<Rightarrow> bool" where
  \<comment> \<open>the script has run: the arrays of the prototype's defaults exist\<close>
  "loaded s = (defaults_options < fresh s \<and> defaults_checked < fresh s)"

definition at_rest :: "world \<Rightarrow> bool" where
  "at_rest w =
     (\<not> changing (mdl w) \<and> \<not> pending (mdl w) \<and>
      (events (mdl w) = [UpdateChecked] \<or> events (mdl w) = [UpdateChecked, Render]) \<and>
      allocated (heap w) (attr_options (attributes (mdl w))) \<and>
      allocated (heap w) (attr_checked (attributes (mdl w))))"

section \<open>What one call of \<^verbatim>\<open>set\<close> does\<close>

lemma without_removeAll: "without xs x = removeAll x xs"
  by (induction xs) (auto simp: without_def)

lemma set_checked_nested:
  "changing (mdl w) \<Longrightarrow> set_checked r True w =
     w\<lparr>mdl := (mdl w)\<lparr>attributes := (attributes (mdl w))\<lparr>attr_checked := Some r\<rparr>\<rparr>\<rparr>"
  by (cases w, cases "mdl w") (simp add: Let_def)

lemma updateChecked_eq:
  "changing (mdl w) \<Longrightarrow> updateChecked r w =
     (if ''all'' \<in> set (cells (heap w) r)
      then w\<lparr>heap := (heap w)\<lparr>cells := (cells (heap w))(fresh (heap w) :=
                   (if contains (previous_checked w) ''all''
                    then removeAll ''all'' (cells (heap w) r) else [''all''])),
                 fresh := Suc (fresh (heap w))\<rparr>,
             mdl := (mdl w)\<lparr>attributes :=
                      (attributes (mdl w))\<lparr>attr_checked := Some (fresh (heap w))\<rparr>\<rparr>\<rparr>
      else w)"
  by (simp add: new_array_def set_checked_nested without_removeAll contains_def
           del: set_checked.simps)

lemma set_checked_same:
  "get_checked w = Some (cells (heap w) r) \<Longrightarrow> \<not> changing (mdl w) \<Longrightarrow>
   set_checked r silent w =
     w\<lparr>mdl := (mdl w)\<lparr>previousAttributes := attributes (mdl w),
                      attributes := (attributes (mdl w))\<lparr>attr_checked := Some r\<rparr>,
                      pending := False\<rparr>\<rparr>"
  by (cases w, cases "mdl w") (simp add: Let_def get_checked_def isEqual_def)

lemma set_checked_changed:
  "get_checked w \<noteq> Some (cells (heap w) r) \<Longrightarrow> \<not> changing (mdl w) \<Longrightarrow>
   set_checked r False w =
     (let w' = trigger_change_checked (events (mdl w)) r
                 (w\<lparr>mdl := (mdl w)\<lparr>changing := True, previousAttributes := attributes (mdl w),
                      attributes := (attributes (mdl w))\<lparr>attr_checked := Some r\<rparr>,
                      pending := True\<rparr>\<rparr>)
      in w'\<lparr>mdl := (mdl w')\<lparr>pending := False, changing := False\<rparr>\<rparr>)"
  by (cases w, cases "mdl w") (simp add: Let_def get_checked_def isEqual_def)

declare set_checked.simps [simp del] updateChecked.simps [simp del]

lemma trigger_model_only:
  "trigger_change_checked [UpdateChecked] r w =
     updateChecked r (note_delivery UpdateChecked r w)"
  by simp

lemma trigger_model_and_view:
  "trigger_change_checked [UpdateChecked, Render] r w =
     (let w' = updateChecked r (note_delivery UpdateChecked r w)
      in render (note_delivery Render r w'))"
  by (simp add: Let_def)

lemmas rest_defs = at_rest_def allocated_def get_checked_def get_options_def deref_def
  previous_checked_def note_delivery_def render_def contains_def

lemma setChecked_same:
  assumes "get_checked w = Some c" and "\<not> changing (mdl w)"
  shows "setChecked c w =
     w\<lparr>heap := (heap w)\<lparr>cells := (cells (heap w))(fresh (heap w) := c),
                        fresh := Suc (fresh (heap w))\<rparr>,
       mdl := (mdl w)\<lparr>previousAttributes := attributes (mdl w),
              attributes := (attributes (mdl w))\<lparr>attr_checked := Some (fresh (heap w))\<rparr>,
              pending := False\<rparr>\<rparr>"
proof -
  let ?r = "fresh (heap w)"
  let ?w = "w\<lparr>heap := (heap w)\<lparr>cells := (cells (heap w))(?r := c), fresh := Suc ?r\<rparr>\<rparr>"
  have "get_checked ?w = Some (cells (heap ?w) ?r)"
    using assms(1) by (auto simp: get_checked_def deref_def split: option.splits)
  moreover have "\<not> changing (mdl ?w)"
    using assms(2) by simp
  ultimately have "set_checked ?r False ?w =
      ?w\<lparr>mdl := (mdl ?w)\<lparr>previousAttributes := attributes (mdl ?w),
                        attributes := (attributes (mdl ?w))\<lparr>attr_checked := Some ?r\<rparr>,
                        pending := False\<rparr>\<rparr>"
    by (rule set_checked_same)
  then show ?thesis
    by (simp add: setChecked_def new_array_def)
qed

lemma setChecked_get_checked:
  assumes "at_rest w" and "get_checked w = Some previous"
  shows "get_checked (setChecked newChecked w) =
           Some (if newChecked = previous then newChecked
                 else spec_reconcile previous newChecked)"
proof (cases "newChecked = previous")
  case True
  then show ?thesis
    using assms
    by (simp add: setChecked_same at_rest_def) (simp add: get_checked_def deref_def)
next
  case False
  then show ?thesis
    using assms
    by (auto simp: setChecked_def new_array_def set_checked_changed trigger_model_only
        trigger_model_and_view updateChecked_eq rest_defs spec_reconcile_def Let_def
        split: option.splits)
qed

lemma setChecked_at_rest:
  assumes "at_rest w"
  shows "at_rest (setChecked newChecked w)"
proof (cases "get_checked w = Some newChecked")
  case True
  then show ?thesis
    using assms
    by (simp add: setChecked_same at_rest_def) (simp add: allocated_def split: option.splits)
next
  case False
  then show ?thesis
    using assms
    by (auto simp: setChecked_def new_array_def set_checked_changed trigger_model_only
        trigger_model_and_view updateChecked_eq rest_defs Let_def
        split: option.splits if_splits)
qed

section \<open>What construction does\<close>

lemmas new_defs = ControlColor_with_def literals_def world_of_def ControlColor_new_def
  initialize_def Model_constructor_def defaults_def extend_hash_def empty_object_def
  ControlColor_defaults_def new_array_def push_def

text \<open>
  In \<^verbatim>\<open>initialize\<close>, \<^verbatim>\<open>attrs.options\<close> is an array whenever \<^verbatim>\<open>push\<close> is called
  on it: the defaults supply one if the caller does not.
\<close>

lemma initialize_options_defined:
  "attr_options (defaults (case attrs_arg of None \<Rightarrow> empty_object | Some a \<Rightarrow> a)
                          ControlColor_defaults) \<noteq> None"
  by (simp add: defaults_def ControlColor_defaults_def split: option.splits)

lemma loaded_script: "loaded script_loaded"
  by (simp add: loaded_def script_loaded_def defaults_options_def defaults_checked_def)

lemma ControlColor_with_get_checked:
  "loaded s \<Longrightarrow> get_checked (ControlColor_with opts (Some chk) s) = Some chk"
  by (cases opts) (auto simp: new_defs loaded_def get_checked_def deref_def Let_def)

lemma ControlColor_with_at_rest:
  "loaded s \<Longrightarrow> at_rest (ControlColor_with opts chk s)"
  by (cases opts; cases chk) (auto simp: new_defs loaded_def at_rest_def allocated_def Let_def)

section \<open>The reconciliation rule\<close>

text \<open>
  Claim C1 says that after every \<^verbatim>\<open>setChecked(newChecked)\<close> the stored list is the
  reference reconciliation of the previous list and \<open>newChecked\<close>. It fails when the new
  list is deep-equal to the stored one: \<^verbatim>\<open>set\<close> then triggers no
  \<^verbatim>\<open>change:checked\<close>, \<^verbatim>\<open>updateChecked\<close> does not run, and a freshly constructed
  model that is sent \<open>[all]\<close> again keeps \<open>[all]\<close>, where the reference rule gives the
  empty list.
\<close>

theorem setChecked_equal_list_counterexample:
  "get_checked (ControlColor_with None None script_loaded) = Some [''all''] \<and>
   get_checked (setChecked [''all''] (ControlColor_with None None script_loaded))
     = Some [''all''] \<and>
   spec_reconcile [''all''] [''all''] = [] \<and>
   get_checked (setChecked [''all''] (ControlColor_with None None script_loaded))
     \<noteq> Some (spec_reconcile [''all''] [''all''])"
  by code_simp

text \<open>
  Claim C1, amended: for a \<^verbatim>\<open>ControlColor\<close> between calls, a
  \<^verbatim>\<open>setChecked(newChecked)\<close> whose argument is not deep-equal to the stored list leaves
  the reference reconciliation of the previous list and \<open>newChecked\<close> stored; an argument
  deep-equal to the stored list is stored as it is.
\<close>

theorem setChecked_reconciles_unless_equal:
  assumes "at_rest w" and "get_checked w = Some previous"
  shows "get_checked (setChecked newChecked w) =
           Some (if newChecked = previous then newChecked
                 else spec_reconcile previous newChecked)"
  using assms by (rule setChecked_get_checked)

text \<open>
  Witness for C1: the default model holds \<open>[all]\<close>; sending \<open>[all, blue]\<close> leaves
  \<open>[blue]\<close>.
\<close>

theorem setChecked_reconciles_unless_equal_witness:
  "at_rest (ControlColor_with None None script_loaded) \<and>
   get_checked (ControlColor_with None None script_loaded) = Some [''all''] \<and>
   get_checked (setChecked [''all'', ''blue''] (ControlColor_with None None script_loaded))
     = Some [''blue'']"
proof -
  let ?w = "ControlColor_with None None script_loaded"
  have r: "at_rest ?w"
    by code_simp
  have c: "get_checked ?w = Some [''all'']"
    by code_simp
  show ?thesis
    using r c setChecked_reconciles_unless_equal [OF r c, of "[''all'', ''blue'']"]
    by (simp add: spec_reconcile_def)
qed

text \<open>
  Claim C3 says that from the list \<open>[all]\<close>, \<^verbatim>\<open>setChecked([all, red, green])\<close> leaves
  \<open>[all]\<close> and then \<^verbatim>\<open>setChecked([all, blue])\<close> leaves \<open>[blue]\<close>. On the code the
  first call finds \<open>all\<close> in the previous list and drops it, leaving \<open>[red, green]\<close>, and
  the second call then finds no \<open>all\<close> in the previous list and leaves \<open>[all]\<close>.
\<close>

theorem setChecked_from_all_counterexample:
  "get_checked (ControlColor_with None None script_loaded) = Some [''all''] \<and>
   get_checked (setChecked [''all'', ''red'', ''green'']
                  (ControlColor_with None None script_loaded))
     = Some [''red'', ''green''] \<and>
   get_checked (setChecked [''all'', ''red'', ''green'']
                  (ControlColor_with None None script_loaded))
     \<noteq> Some [''all''] \<and>
   get_checked (setChecked [''all'', ''blue'']
                  (setChecked [''all'', ''red'', ''green'']
                     (ControlColor_with None None script_loaded)))
     = Some [''all'']"
  by code_simp

text \<open>
  Claim C3, amended: starting from a \<^verbatim>\<open>ControlColor\<close> whose checked list is
  \<open>[red, green]\<close> (the state of the repository's own test),
  \<^verbatim>\<open>setChecked([all, red, green])\<close> leaves \<open>[all]\<close>, and a following
  \<^verbatim>\<open>setChecked([all, blue])\<close> leaves \<open>[blue]\<close>.
\<close>

theorem setChecked_all_then_blue:
  assumes "at_rest w" and "get_checked w = Some [''red'', ''green'']"
  shows "get_checked (setChecked [''all'', ''red'', ''green''] w) = Some [''all''] \<and>
         get_checked (setChecked [''all'', ''blue''] (setChecked [''all'', ''red'', ''green''] w))
           = Some [''blue'']"
proof -
  let ?w1 = "setChecked [''all'', ''red'', ''green''] w"
  have first: "get_checked ?w1 = Some [''all'']"
    using setChecked_get_checked [OF assms, of "[''all'', ''red'', ''green'']"]
    by (simp add: spec_reconcile_def)
  have "at_rest ?w1"
    using assms(1) by (rule setChecked_at_rest)
  from setChecked_get_checked [OF this first, of "[''all'', ''blue'']"]
  have "get_checked (setChecked [''all'', ''blue''] ?w1) = Some [''blue'']"
    by (simp add: spec_reconcile_def)
  with first show ?thesis
    by simp
qed

text \<open>
  Witness for C3: the model of the test, constructed with the checked list
  \<open>[red, green]\<close>.
\<close>

theorem setChecked_all_then_blue_witness:
  "at_rest (ControlColor_with None (Some [''red'', ''green'']) script_loaded) \<and>
   get_checked (ControlColor_with None (Some [''red'', ''green'']) script_loaded)
     = Some [''red'', ''green''] \<and>
   get_checked (setChecked [''all'', ''red'', ''green'']
                  (ControlColor_with None (Some [''red'', ''green'']) script_loaded))
     = Some [''all''] \<and>
   get_checked (setChecked [''all'', ''blue'']
                  (setChecked [''all'', ''red'', ''green'']
                     (ControlColor_with None (Some [''red'', ''green'']) script_loaded)))
     = Some [''blue'']"
proof -
  let ?w = "ControlColor_with None (Some [''red'', ''green'']) script_loaded"
  have r: "at_rest ?w"
    using loaded_script by (rule ControlColor_with_at_rest)
  have c: "get_checked ?w = Some [''red'', ''green'']"
    using loaded_script by (rule ControlColor_with_get_checked)
  show ?thesis
    using r c setChecked_all_then_blue [OF r c] by simp
qed

text \<open>
  Claim C10: calling \<^verbatim>\<open>setChecked\<close> with a list deep-equal to the stored one is a
  no-op. The stored list keeps its contents, no handler is called, and the rendered
  controls stay as they were; this holds for an array literal and for any array already
  in the store whose contents equal the stored list (the stored array itself included).
\<close>

theorem setChecked_equal_list_noop:
  assumes "get_checked w = Some c"
  shows "get_checked (setChecked c w) = Some c \<and>
         delivered (setChecked c w) = delivered w \<and>
         el (setChecked c w) = el w \<and>
         (cells (heap w) r = c \<longrightarrow>
            get_checked (set_checked r False w) = Some c \<and>
            delivered (set_checked r False w) = delivered w \<and>
            el (set_checked r False w) = el w)"
  using assms
  by (cases w, cases "mdl w")
     (auto simp add: setChecked_def new_array_def set_checked.simps Let_def get_checked_def
        isEqual_def deref_def split: option.splits)

text \<open>
  Witness for C10: the default model is sent \<open>[all]\<close> again, as a literal and as its own
  array (the one of the prototype's defaults).
\<close>

theorem setChecked_equal_list_noop_witness:
  "get_checked (ControlColor_with None None script_loaded) = Some [''all''] \<and>
   cells (heap (ControlColor_with None None script_loaded)) defaults_checked = [''all''] \<and>
   get_checked (setChecked [''all''] (ControlColor_with None None script_loaded))
     = Some [''all''] \<and>
   delivered (setChecked [''all''] (ControlColor_with None None script_loaded)) = [] \<and>
   delivered (set_checked defaults_checked False (ControlColor_with None None script_loaded))
     = []"
proof -
  let ?w = "ControlColor_with None None script_loaded"
  have c: "get_checked ?w = Some [''all'']"
    by code_simp
  have a: "cells (heap ?w) defaults_checked = [''all'']"
    by code_simp
  have d: "delivered ?w = []"
    by code_simp
  show ?thesis
    using c a d setChecked_equal_list_noop [OF c, of defaults_checked] by simp
qed

section \<open>The exclusive sentinel\<close>

lemma spec_reconcile_exclusive: "all_exclusive (spec_reconcile previous newChecked)"
  by (simp add: all_exclusive_def spec_reconcile_def)

lemma setChecked_exclusive:
  assumes "at_rest w" and "get_checked w = Some c" and "all_exclusive c \<or> newChecked \<noteq> c"
  shows "\<exists>c'. get_checked (setChecked newChecked w) = Some c' \<and> all_exclusive c'"
  using assms setChecked_get_checked [OF assms(1,2), of newChecked]
  by (auto simp: spec_reconcile_exclusive)

lemma setChecked_all_exclusive:
  assumes "at_rest w" and "get_checked w = Some c" and "all_exclusive c"
  shows "\<exists>c'. get_checked (setChecked_all calls w) = Some c' \<and> all_exclusive c'"
  using assms
proof (induction calls arbitrary: w c)
  case Nil
  then show ?case
    by simp
next
  case (Cons x calls)
  from setChecked_exclusive [of w c x] Cons.prems
  obtain c1 where c1: "get_checked (setChecked x w) = Some c1" "all_exclusive c1"
    by blast
  have "at_rest (setChecked x w)"
    using Cons.prems(1) by (rule setChecked_at_rest)
  from Cons.IH [OF this c1] show ?case
    by simp
qed

text \<open>
  Claim C2 says that after every \<^verbatim>\<open>setChecked\<close> call on every
  \<^verbatim>\<open>ControlColor\<close> the checked list is \<open>[all]\<close> or has no \<open>all\<close>. Construction
  stores the initial list as it is given, and a call with a deep-equal list changes
  nothing: a model constructed with \<open>[all, red]\<close> and sent \<open>[all, red]\<close> still holds
  \<open>all\<close> beside \<open>red\<close>.
\<close>

theorem setChecked_keeps_mixed_list_counterexample:
  "get_checked (setChecked_all [ [''all'', ''red''] ]
                  (ControlColor_with None (Some [''all'', ''red'']) script_loaded))
     = Some [''all'', ''red''] \<and>
   \<not> all_exclusive [''all'', ''red'']"
  by code_simp

text \<open>
  Claim C2, amended: for every \<^verbatim>\<open>ControlColor\<close> between calls and every sequence of
  \<^verbatim>\<open>setChecked\<close> calls, the checked list after the sequence is \<open>[all]\<close> or has no
  \<open>all\<close>, provided the list stored before the sequence was already so, or the first call's
  argument is not deep-equal to it. (The sequence is arbitrary, so this speaks of the
  state after each of its calls.)
\<close>

theorem setChecked_all_keeps_all_exclusive:
  assumes "at_rest w" and "get_checked w = Some c" and "all_exclusive c \<or> newChecked \<noteq> c"
  shows "\<exists>c'. get_checked (setChecked_all (newChecked # calls) w) = Some c' \<and>
              all_exclusive c'"
proof -
  from setChecked_exclusive [OF assms]
  obtain c1 where c1: "get_checked (setChecked newChecked w) = Some c1" "all_exclusive c1"
    by blast
  have "at_rest (setChecked newChecked w)"
    using assms(1) by (rule setChecked_at_rest)
  from setChecked_all_exclusive [OF this c1] show ?thesis
    by simp
qed

text \<open>
  Witness for C2: the default model, sent \<open>[all, red]\<close> and then \<open>[all]\<close>.
\<close>

theorem setChecked_all_keeps_all_exclusive_witness:
  "at_rest (ControlColor_with None None script_loaded) \<and>
   get_checked (ControlColor_with None None script_loaded) = Some [''all''] \<and>
   all_exclusive [''all''] \<and>
   (\<exists>c'. get_checked (setChecked_all [ [''all'', ''red''], [''all''] ]
                        (ControlColor_with None None script_loaded)) = Some c' \<and>
         all_exclusive c')"
proof -
  let ?w = "ControlColor_with None None script_loaded"
  have r: "at_rest ?w"
    using loaded_script by (rule ControlColor_with_at_rest)
  have c: "get_checked ?w = Some [''all'']"
    by code_simp
  have x: "all_exclusive [''all''] \<or> [''all'', ''red''] \<noteq> [''all'']"
    by (simp add: all_exclusive_def)
  show ?thesis
    using r c setChecked_all_keeps_all_exclusive [OF r c x, of "[ [''all''] ]"]
    by (simp add: all_exclusive_def)
qed

section \<open>Notification\<close>

lemma spec_reconcile_changes:
  assumes "newChecked \<noteq> previous"
  shows "spec_reconcile previous newChecked \<noteq> previous"
proof
  assume eq: "spec_reconcile previous newChecked = previous"
  show False
  proof (cases "''all'' \<in> set newChecked")
    case False
    with eq assms show False
      by (simp add: spec_reconcile_def)
  next
    case True
    show False
    proof (cases "''all'' \<in> set previous")
      case True
      with \<open>''all'' \<in> set newChecked\<close> eq have "removeAll ''all'' newChecked = previous"
        by (simp add: spec_reconcile_def)
      then have "''all'' \<notin> set previous"
        by auto
      with True show False
        by simp
    next
      case False
      with \<open>''all'' \<in> set newChecked\<close> eq have "previous = [''all'']"
        by (simp add: spec_reconcile_def)
      with False show False
        by simp
    qed
  qed
qed

lemma View_initialize_at_rest:
  "at_rest w \<Longrightarrow> events (mdl w) = [UpdateChecked] \<Longrightarrow> at_rest (View_initialize w)"
  by (simp add: at_rest_def View_initialize_def)

lemma setChecked_with_view:
  assumes "at_rest w" and "events (mdl w) = [UpdateChecked, Render]"
    and "get_options w = Some opts"
    and "get_checked w = Some previous" and "newChecked \<noteq> previous"
  shows "delivered (setChecked newChecked w) = delivered w @
           [\<lparr>receiver = UpdateChecked, argument = newChecked, observed = Some newChecked\<rparr>,
            \<lparr>receiver = Render, argument = newChecked,
             observed = Some (spec_reconcile previous newChecked)\<rparr>]"
    and "el (setChecked newChecked w) =
           map (\<lambda>v. \<lparr>cvalue = v,
                      cchecked = (v \<in> set (spec_reconcile previous newChecked))\<rparr>) opts"
    and "get_options (setChecked newChecked w) = Some opts"
  using assms
  by (auto simp: setChecked_def new_array_def set_checked_changed
        trigger_model_and_view updateChecked_eq rest_defs spec_reconcile_def Let_def
        split: option.splits)

text \<open>
  Claim C6 says that a \<^verbatim>\<open>setChecked\<close> call that changes the checked list notifies
  the subscribers exactly once, that they observe the reconciled list and not the
  pre-reconciliation input, and that the corrective write triggers no second notification.
  The notification does carry the pre-reconciliation input: the value handed to every
  \<^verbatim>\<open>change:checked\<close> handler is the array that was passed to \<^verbatim>\<open>set\<close>. On the
  default model with its view, \<^verbatim>\<open>setChecked([all, red])\<close> calls \<^verbatim>\<open>render\<close> with the
  value \<open>[all, red]\<close> while the model holds \<open>[red]\<close>.
\<close>

theorem setChecked_notification_value_counterexample:
  "receiver (last (delivered (setChecked [''all'', ''red'']
      (View_initialize (ControlColor_with None None script_loaded))))) = Render \<and>
   argument (last (delivered (setChecked [''all'', ''red'']
      (View_initialize (ControlColor_with None None script_loaded))))) = [''all'', ''red''] \<and>
   get_checked (setChecked [''all'', ''red'']
      (View_initialize (ControlColor_with None None script_loaded))) = Some [''red''] \<and>
   Some (argument (last (delivered (setChecked [''all'', ''red'']
      (View_initialize (ControlColor_with None None script_loaded))))))
     \<noteq> get_checked (setChecked [''all'', ''red'']
          (View_initialize (ControlColor_with None None script_loaded)))"
  by code_simp

text \<open>
  Claim C6, amended: on a \<^verbatim>\<open>ControlColor\<close> with its view bound, every outside
  \<^verbatim>\<open>setChecked\<close> whose argument is not deep-equal to the stored list (these are the
  calls that change the checked list) calls the model's own handler once and then the
  view's \<^verbatim>\<open>render\<close> once, within the call, and nothing else: the silent write inside
  \<^verbatim>\<open>updateChecked\<close> adds no delivery. The value handed over with the notification
  is the pre-reconciliation input; \<^verbatim>\<open>model.get('checked')\<close>, which \<^verbatim>\<open>render\<close> reads,
  already holds the reconciled list, which is the list stored when the call returns, and
  the controls shown afterwards are one per option, ticked by that list.
\<close>

theorem setChecked_notifies_view_once:
  assumes "at_rest w" and "events (mdl w) = [UpdateChecked, Render]"
    and "get_options w = Some opts"
    and "get_checked w = Some previous" and "newChecked \<noteq> previous"
  shows "delivered (setChecked newChecked w) = delivered w @
           [\<lparr>receiver = UpdateChecked, argument = newChecked, observed = Some newChecked\<rparr>,
            \<lparr>receiver = Render, argument = newChecked,
             observed = get_checked (setChecked newChecked w)\<rparr>] \<and>
         get_checked (setChecked newChecked w) = Some (spec_reconcile previous newChecked) \<and>
         spec_reconcile previous newChecked \<noteq> previous \<and>
         el (setChecked newChecked w) = el (render (setChecked newChecked w)) \<and>
         el (setChecked newChecked w) =
           map (\<lambda>v. \<lparr>cvalue = v,
                      cchecked = (v \<in> set (spec_reconcile previous newChecked))\<rparr>) opts"
proof -
  let ?w' = "setChecked newChecked w"
  have g: "get_checked ?w' = Some (spec_reconcile previous newChecked)"
    using setChecked_get_checked [OF assms(1,4), of newChecked] assms(5) by simp
  note v = setChecked_with_view [OF assms]
  have "el (render ?w') =
          map (\<lambda>v. \<lparr>cvalue = v,
                     cchecked = (v \<in> set (spec_reconcile previous newChecked))\<rparr>) opts"
    using g v(3) by (simp add: render_def contains_def)
  with g v(1,2) spec_reconcile_changes [OF assms(5)] show ?thesis
    by simp
qed

text \<open>
  Witness for C6: the rendered control of the test, sent \<open>[red, blue, all]\<close> as when the
  user ticks \<open>all\<close>: \<^verbatim>\<open>render\<close> is called once, is handed \<open>[red, blue, all]\<close> and
  finds \<open>[all]\<close> in the model.
\<close>

theorem setChecked_notifies_view_once_witness:
  "at_rest (render (View_initialize (ControlColor_with (Some [''red'', ''green'', ''blue''])
      (Some [''blue'', ''red'']) script_loaded))) \<and>
   delivered (setChecked [''red'', ''blue'', ''all'']
     (render (View_initialize (ControlColor_with (Some [''red'', ''green'', ''blue''])
        (Some [''blue'', ''red'']) script_loaded)))) =
     [\<lparr>receiver = UpdateChecked, argument = [''red'', ''blue'', ''all''],
       observed = Some [''red'', ''blue'', ''all'']\<rparr>,
      \<lparr>receiver = Render, argument = [''red'', ''blue'', ''all''],
       observed = Some [''all'']\<rparr>] \<and>
   el (setChecked [''red'', ''blue'', ''all'']
     (render (View_initialize (ControlColor_with (Some [''red'', ''green'', ''blue''])
        (Some [''blue'', ''red'']) script_loaded)))) =
     [\<lparr>cvalue = ''red'', cchecked = False\<rparr>, \<lparr>cvalue = ''green'', cchecked = False\<rparr>,
      \<lparr>cvalue = ''blue'', cchecked = False\<rparr>, \<lparr>cvalue = ''all'', cchecked = True\<rparr>]"
proof -
  let ?w = "render (View_initialize (ControlColor_with (Some [''red'', ''green'', ''blue''])
      (Some [''blue'', ''red'']) script_loaded))"
  have r: "at_rest ?w"
    by code_simp
  have e: "events (mdl ?w) = [UpdateChecked, Render]"
    by code_simp
  have o: "get_options ?w = Some [''red'', ''green'', ''blue'', ''all'']"
    by code_simp
  have c: "get_checked ?w = Some [''blue'', ''red'']"
    by code_simp
  have n: "[''red'', ''blue'', ''all''] \<noteq> [''blue'', ''red'']"
    by simp
  have d: "delivered ?w = []"
    by code_simp
  note t = setChecked_notifies_view_once [OF r e o c n]
  have g: "get_checked (setChecked [''red'', ''blue'', ''all''] ?w) = Some [''all'']"
    using t [THEN conjunct2, THEN conjunct1] by (simp add: spec_reconcile_def)
  have l: "delivered (setChecked [''red'', ''blue'', ''all''] ?w) =
     [\<lparr>receiver = UpdateChecked, argument = [''red'', ''blue'', ''all''],
       observed = Some [''red'', ''blue'', ''all'']\<rparr>,
      \<lparr>receiver = Render, argument = [''red'', ''blue'', ''all''],
       observed = Some [''all'']\<rparr>]"
    using t [THEN conjunct1] d g by simp
  have "el (setChecked [''red'', ''blue'', ''all''] ?w) =
     [\<lparr>cvalue = ''red'', cchecked = False\<rparr>, \<lparr>cvalue = ''green'', cchecked = False\<rparr>,
      \<lparr>cvalue = ''blue'', cchecked = False\<rparr>, \<lparr>cvalue = ''all'', cchecked = True\<rparr>]"
    using t [THEN conjunct2, THEN conjunct2, THEN conjunct2, THEN conjunct2]
    by (simp add: spec_reconcile_def)
  with r l show ?thesis
    by simp
qed

section \<open>Construction\<close>

text \<open>
  Claim C4: when the caller supplies an options array whose contents \<open>L\<close> do not include
  \<open>all\<close>, the options of the constructed model are \<open>L\<close> followed by \<open>all\<close>: every
  element of \<open>L\<close> is there, \<open>all\<close> is last and occurs exactly once.
\<close>

theorem ControlColor_new_appends_all:
  assumes "attr_options a = Some r" and "''all'' \<notin> set (cells s r)"
  shows "get_options (world_of (ControlColor_new (Some a) s)) = Some (cells s r @ [''all'']) \<and>
         set (cells s r) \<subseteq> set (the (get_options (world_of (ControlColor_new (Some a) s)))) \<and>
         last (the (get_options (world_of (ControlColor_new (Some a) s)))) = ''all'' \<and>
         count_list (the (get_options (world_of (ControlColor_new (Some a) s)))) ''all'' = 1"
  using assms
  by (auto simp: new_defs get_options_def deref_def Let_def)

text \<open>
  Witness for C4: the options \<open>[red, green, blue]\<close> of the test.
\<close>

theorem ControlColor_new_appends_all_witness:
  "''all'' \<notin> set [''red'', ''green'', ''blue''] \<and>
   get_options (ControlColor_with (Some [''red'', ''green'', ''blue'']) None script_loaded)
     = Some [''red'', ''green'', ''blue'', ''all'']"
proof -
  let ?s = "snd (new_array [''red'', ''green'', ''blue''] script_loaded)"
  let ?a = "\<lparr>attr_options = Some 2, attr_checked = None\<rparr>"
  have o: "attr_options ?a = Some 2"
    by simp
  have c: "cells ?s 2 = [''red'', ''green'', ''blue'']"
    by (simp add: new_array_def script_loaded_def)
  then have n: "''all'' \<notin> set (cells ?s 2)"
    by simp
  have w: "ControlColor_with (Some [''red'', ''green'', ''blue'']) None script_loaded
             = world_of (ControlColor_new (Some ?a) ?s)"
    by (simp add: ControlColor_with_def literals_def new_array_def script_loaded_def)
  show ?thesis
    using ControlColor_new_appends_all [OF o n] c w by simp
qed

text \<open>
  Claim C5 says that an initial checked list holding \<open>all\<close> beside other identifiers is
  reconciled at construction. The constructor stores the attributes before
  \<^verbatim>\<open>initialize\<close> binds \<^verbatim>\<open>updateChecked\<close>, so nothing reconciles them: a model
  constructed with \<open>[all, red]\<close> holds \<open>[all, red]\<close>.
\<close>

theorem ControlColor_new_mixed_list_counterexample:
  "get_checked (ControlColor_with None (Some [''all'', ''red'']) script_loaded)
     = Some [''all'', ''red''] \<and>
   ''all'' \<in> set [''all'', ''red''] \<and> ''red'' \<in> set [''all'', ''red'']"
  by code_simp

text \<open>
  Claim C5, amended: constructing a \<^verbatim>\<open>ControlColor\<close> with an initial checked array
  stores that array without reconciliation. Right after construction the checked list is
  the supplied list as it was given, also when it holds \<open>all\<close> beside other identifiers,
  unless the same array is also the one used for the options (the caller's, or the
  prototype's default when the caller gives none): then it is the supplied list followed
  by the \<open>all\<close> that \<^verbatim>\<open>initialize\<close> pushes.
\<close>

theorem ControlColor_new_stores_checked_as_given:
  assumes "attr_checked a = Some c"
  shows "get_checked (world_of (ControlColor_new (Some a) s)) =
           Some (if attr_options (defaults a ControlColor_defaults) = Some c
                 then cells s c @ [''all''] else cells s c)"
  using assms
  by (auto simp: new_defs get_checked_def deref_def Let_def split: option.splits)

text \<open>
  Witness for C5: the checked array \<open>[all, red, green]\<close> beside a separate options array
  \<open>[red, green]\<close> is stored as given; the one array \<open>[red]\<close> under both keys reads
  \<open>[red, all]\<close>.
\<close>

theorem ControlColor_new_stores_checked_as_given_witness:
  "get_checked (world_of (ControlColor_new
      (Some \<lparr>attr_options = Some 2, attr_checked = Some 3\<rparr>)
      (snd (new_array [''all'', ''red'', ''green'']
         (snd (new_array [''red'', ''green''] script_loaded))))))
     = Some [''all'', ''red'', ''green''] \<and>
   get_checked (world_of (ControlColor_new
      (Some \<lparr>attr_options = Some 2, attr_checked = Some 2\<rparr>)
      (snd (new_array [''red''] script_loaded))))
     = Some [''red'', ''all'']"
proof -
  let ?s = "snd (new_array [''all'', ''red'', ''green'']
              (snd (new_array [''red'', ''green''] script_loaded)))"
  let ?a = "\<lparr>attr_options = Some 2, attr_checked = Some 3\<rparr>"
  let ?s1 = "snd (new_array [''red''] script_loaded)"
  let ?a1 = "\<lparr>attr_options = Some 2, attr_checked = Some 2\<rparr>"
  have c: "attr_checked ?a = Some 3" and c1: "attr_checked ?a1 = Some 2"
    by simp_all
  have v: "cells ?s 3 = [''all'', ''red'', ''green'']" and v1: "cells ?s1 2 = [''red'']"
    by (simp_all add: new_array_def script_loaded_def)
  show ?thesis
    using ControlColor_new_stores_checked_as_given [OF c, of ?s]
      ControlColor_new_stores_checked_as_given [OF c1, of ?s1] v v1
    by (simp add: defaults_def)
qed

text \<open>
  Claim C9: the constructor changes its options input in place. An array supplied by the
  caller has \<open>all\<close> pushed onto it, seen through the caller's own reference; with no
  argument the model's options are the array of the prototype's defaults itself, which gets
  the push, so that after the script is loaded the first model made without arguments has
  the options \<open>[all]\<close> and the second \<open>[all, all]\<close>.
\<close>

theorem ControlColor_new_pushes_in_place:
  "(attr_options a = Some r \<longrightarrow>
      cells (heap (world_of (ControlColor_new (Some a) s))) r = cells s r @ [''all'']) \<and>
   cells (heap (world_of (ControlColor_new None s))) defaults_options
     = cells s defaults_options @ [''all''] \<and>
   attr_options (attributes (mdl (world_of (ControlColor_new None s))))
     = Some defaults_options \<and>
   get_options (world_of (ControlColor_new None script_loaded)) = Some [''all''] \<and>
   get_options (world_of (ControlColor_new None
                  (heap (world_of (ControlColor_new None script_loaded)))))
     = Some [''all'', ''all'']"
  by (auto simp: new_defs get_options_def deref_def Let_def script_loaded_def
        defaults_options_def defaults_checked_def)

text \<open>
  Witness for C9: the caller's array \<open>[red]\<close>, at reference 2, reads \<open>[red, all]\<close> after
  the construction.
\<close>

theorem ControlColor_new_pushes_in_place_witness:
  "cells (snd (new_array [''red''] script_loaded)) 2 = [''red''] \<and>
   cells (heap (world_of (ControlColor_new (Some \<lparr>attr_options = Some 2, attr_checked = None\<rparr>)
                            (snd (new_array [''red''] script_loaded))))) 2
     = [''red'', ''all'']"
proof -
  let ?s = "snd (new_array [''red''] script_loaded)"
  let ?a = "\<lparr>attr_options = Some 2, attr_checked = None\<rparr>"
  have c: "cells ?s 2 = [''red'']"
    by (simp add: new_array_def script_loaded_def)
  have o: "attr_options ?a = Some 2"
    by simp
  show ?thesis
    using c o ControlColor_new_pushes_in_place [of ?a 2 ?s] by simp
qed

section \<open>The view\<close>

text \<open>
  Claim C7: \<^verbatim>\<open>render\<close> leaves in the target exactly one control per entry of the
  model's options, in order, carrying that entry as its value and checked exactly when the
  entry is in the model's checked list, whatever the target held before; rendering again
  on the unchanged state changes nothing, so the number of controls stays the number of
  options.
\<close>

theorem render_one_control_per_option:
  assumes "get_options w = Some opts" and "get_checked w = Some chk"
  shows "el (render w) = map (\<lambda>v. \<lparr>cvalue = v, cchecked = (v \<in> set chk)\<rparr>) opts \<and>
         length (el (render w)) = length opts \<and>
         render (render w) = render w \<and>
         length (el (render (render w))) = length (el (render w))"
  using assms
  by (simp add: render_def get_options_def get_checked_def contains_def)

text \<open>
  Witness for C7: the model of the view's test as a \<^verbatim>\<open>ControlColor\<close>, with its view.
\<close>

theorem render_one_control_per_option_witness:
  "get_options (View_initialize (ControlColor_with (Some [''red'', ''green'', ''blue''])
      (Some [''blue'', ''red'']) script_loaded)) = Some [''red'', ''green'', ''blue'', ''all''] \<and>
   get_checked (View_initialize (ControlColor_with (Some [''red'', ''green'', ''blue''])
      (Some [''blue'', ''red'']) script_loaded)) = Some [''blue'', ''red''] \<and>
   el (render (View_initialize (ControlColor_with (Some [''red'', ''green'', ''blue''])
      (Some [''blue'', ''red'']) script_loaded))) =
     [\<lparr>cvalue = ''red'', cchecked = True\<rparr>, \<lparr>cvalue = ''green'', cchecked = False\<rparr>,
      \<lparr>cvalue = ''blue'', cchecked = True\<rparr>, \<lparr>cvalue = ''all'', cchecked = False\<rparr>]"
proof -
  let ?w = "View_initialize (ControlColor_with (Some [''red'', ''green'', ''blue''])
      (Some [''blue'', ''red'']) script_loaded)"
  have o: "get_options ?w = Some [''red'', ''green'', ''blue'', ''all'']"
    by code_simp
  have c: "get_checked ?w = Some [''blue'', ''red'']"
    by code_simp
  show ?thesis
    using o c render_one_control_per_option [OF o c] by simp
qed

text \<open>
  Claim C8: the change handler passes to \<^verbatim>\<open>setChecked\<close> the values of exactly the
  controls of the target that are checked at that moment, in document order. On a
  \<^verbatim>\<open>ControlColor\<close> with its view, when that list differs from the stored one, the
  model's handler and then \<^verbatim>\<open>render\<close> are called with it, the model ends with the
  reconciliation of it, and the target is rendered again with one control per option,
  ticked by the reconciled list. With the options \<open>[red, green, blue]\<close> and the checked
  list \<open>[blue, red]\<close>, rendered, unticking \<open>red\<close> and firing the handler leaves \<open>[blue]\<close>
  in the model, \<^verbatim>\<open>render\<close> is called once and the controls rendered again show only
  \<open>blue\<close> ticked; so it is for a \<^verbatim>\<open>ControlColor\<close> (which adds the control for \<open>all\<close>)
  and for the plain \<^verbatim>\<open>Backbone.Model\<close> of the test.
\<close>

theorem handleChange_sets_checked_controls:
  assumes "at_rest w" and "events (mdl w) = [UpdateChecked, Render]"
    and "get_options w = Some opts" and "get_checked w = Some previous"
    and "map cvalue (filter cchecked (el w)) \<noteq> previous"
  shows "handleChange w = setChecked (map cvalue (filter cchecked (el w))) w \<and>
         delivered (handleChange w) = delivered w @
           [\<lparr>receiver = UpdateChecked, argument = map cvalue (filter cchecked (el w)),
             observed = Some (map cvalue (filter cchecked (el w)))\<rparr>,
            \<lparr>receiver = Render, argument = map cvalue (filter cchecked (el w)),
             observed = get_checked (handleChange w)\<rparr>] \<and>
         get_checked (handleChange w) =
           Some (spec_reconcile previous (map cvalue (filter cchecked (el w)))) \<and>
         el (handleChange w) =
           map (\<lambda>v. \<lparr>cvalue = v,
                      cchecked = (v \<in> set (spec_reconcile previous
                                              (map cvalue (filter cchecked (el w)))))\<rparr>) opts \<and>
         get_checked (handleChange (prop_checked ''red'' False
      (render (View_initialize
         (ControlColor_with (Some [''red'', ''green'', ''blue'']) (Some [''blue'', ''red''])
            script_loaded))))) = Some [''blue''] \<and>
         el (handleChange (prop_checked ''red'' False
      (render (View_initialize
         (ControlColor_with (Some [''red'', ''green'', ''blue'']) (Some [''blue'', ''red''])
            script_loaded))))) =
     [\<lparr>cvalue = ''red'', cchecked = False\<rparr>, \<lparr>cvalue = ''green'', cchecked = False\<rparr>,
      \<lparr>cvalue = ''blue'', cchecked = True\<rparr>, \<lparr>cvalue = ''all'', cchecked = False\<rparr>] \<and>
         delivered (handleChange (prop_checked ''red'' False
      (render (View_initialize
         (ControlColor_with (Some [''red'', ''green'', ''blue'']) (Some [''blue'', ''red''])
            script_loaded))))) =
     [\<lparr>receiver = UpdateChecked, argument = [''blue''], observed = Some [''blue'']\<rparr>,
      \<lparr>receiver = Render, argument = [''blue''], observed = Some [''blue'']\<rparr>] \<and>
         get_checked (handleChange (prop_checked ''red'' False
      (render (View_initialize
         (Backbone_Model_with (Some [''red'', ''green'', ''blue'']) (Some [''blue'', ''red''])
            script_loaded))))) = Some [''blue''] \<and>
         el (handleChange (prop_checked ''red'' False
      (render (View_initialize
         (Backbone_Model_with (Some [''red'', ''green'', ''blue'']) (Some [''blue'', ''red''])
            script_loaded))))) =
     [\<lparr>cvalue = ''red'', cchecked = False\<rparr>, \<lparr>cvalue = ''green'', cchecked = False\<rparr>,
      \<lparr>cvalue = ''blue'', cchecked = True\<rparr>] \<and>
         delivered (handleChange (prop_checked ''red'' False
      (render (View_initialize
         (Backbone_Model_with (Some [''red'', ''green'', ''blue'']) (Some [''blue'', ''red''])
            script_loaded))))) =
     [\<lparr>receiver = Render, argument = [''blue''], observed = Some [''blue'']\<rparr>]"
proof -
  let ?c = "map cvalue (filter cchecked (el w))"
  have h: "handleChange w = setChecked ?c w"
    by (simp add: handleChange_def setChecked_def pluck_value_def)
  have g: "get_checked (setChecked ?c w) = Some (spec_reconcile previous ?c)"
    using setChecked_get_checked [OF assms(1,4), of ?c] assms(5) by simp
  note v = setChecked_with_view [OF assms]
  have s1: "get_checked (handleChange (prop_checked ''red'' False
      (render (View_initialize
         (ControlColor_with (Some [''red'', ''green'', ''blue'']) (Some [''blue'', ''red''])
            script_loaded))))) = Some [''blue'']"
    by code_simp
  have s2: "el (handleChange (prop_checked ''red'' False
      (render (View_initialize
         (ControlColor_with (Some [''red'', ''green'', ''blue'']) (Some [''blue'', ''red''])
            script_loaded))))) =
     [\<lparr>cvalue = ''red'', cchecked = False\<rparr>, \<lparr>cvalue = ''green'', cchecked = False\<rparr>,
      \<lparr>cvalue = ''blue'', cchecked = True\<rparr>, \<lparr>cvalue = ''all'', cchecked = False\<rparr>]"
    by code_simp
  have s3: "delivered (handleChange (prop_checked ''red'' False
      (render (View_initialize
         (ControlColor_with (Some [''red'', ''green'', ''blue'']) (Some [''blue'', ''red''])
            script_loaded))))) =
     [\<lparr>receiver = UpdateChecked, argument = [''blue''], observed = Some [''blue'']\<rparr>,
      \<lparr>receiver = Render, argument = [''blue''], observed = Some [''blue'']\<rparr>]"
    by code_simp
  have s4: "get_checked (handleChange (prop_checked ''red'' False
      (render (View_initialize
         (Backbone_Model_with (Some [''red'', ''green'', ''blue'']) (Some [''blue'', ''red''])
            script_loaded))))) = Some [''blue'']"
    by code_simp
  have s5: "el (handleChange (prop_checked ''red'' False
      (render (View_initialize
         (Backbone_Model_with (Some [''red'', ''green'', ''blue'']) (Some [''blue'', ''red''])
            script_loaded))))) =
     [\<lparr>cvalue = ''red'', cchecked = False\<rparr>, \<lparr>cvalue = ''green'', cchecked = False\<rparr>,
      \<lparr>cvalue = ''blue'', cchecked = True\<rparr>]"
    by code_simp
  have s6: "delivered (handleChange (prop_checked ''red'' False
      (render (View_initialize
         (Backbone_Model_with (Some [''red'', ''green'', ''blue'']) (Some [''blue'', ''red''])
            script_loaded))))) =
     [\<lparr>receiver = Render, argument = [''blue''], observed = Some [''blue'']\<rparr>]"
    by code_simp
  show ?thesis
    using h g v(1,2) s1 s2 s3 s4 s5 s6 by simp
qed

text \<open>
  Witness for C8: in the rendered control of the test the user ticks \<open>all\<close>; the handler
  collects \<open>[red, blue, all]\<close>, the model ends with \<open>[all]\<close>, and the controls rendered
  again differ from those the handler found.
\<close>

theorem handleChange_sets_checked_controls_witness:
  "at_rest (prop_checked ''all'' True
      (render (View_initialize
         (ControlColor_with (Some [''red'', ''green'', ''blue'']) (Some [''blue'', ''red''])
            script_loaded)))) \<and>
   map cvalue (filter cchecked (el (prop_checked ''all'' True
      (render (View_initialize
         (ControlColor_with (Some [''red'', ''green'', ''blue'']) (Some [''blue'', ''red''])
            script_loaded)))))) = [''red'', ''blue'', ''all''] \<and>
   get_checked (handleChange (prop_checked ''all'' True
      (render (View_initialize
         (ControlColor_with (Some [''red'', ''green'', ''blue'']) (Some [''blue'', ''red''])
            script_loaded))))) = Some [''all''] \<and>
   el (handleChange (prop_checked ''all'' True
      (render (View_initialize
         (ControlColor_with (Some [''red'', ''green'', ''blue'']) (Some [''blue'', ''red''])
            script_loaded))))) =
     [\<lparr>cvalue = ''red'', cchecked = False\<rparr>, \<lparr>cvalue = ''green'', cchecked = False\<rparr>,
      \<lparr>cvalue = ''blue'', cchecked = False\<rparr>, \<lparr>cvalue = ''all'', cchecked = True\<rparr>] \<and>
   delivered (handleChange (prop_checked ''all'' True
      (render (View_initialize
         (ControlColor_with (Some [''red'', ''green'', ''blue'']) (Some [''blue'', ''red''])
            script_loaded))))) =
     [\<lparr>receiver = UpdateChecked, argument = [''red'', ''blue'', ''all''],
       observed = Some [''red'', ''blue'', ''all'']\<rparr>,
      \<lparr>receiver = Render, argument = [''red'', ''blue'', ''all''],
       observed = Some [''all'']\<rparr>]"
proof -
  let ?w = "prop_checked ''all'' True
      (render (View_initialize
         (ControlColor_with (Some [''red'', ''green'', ''blue'']) (Some [''blue'', ''red''])
            script_loaded)))"
  have r: "at_rest ?w"
    by code_simp
  have e: "events (mdl ?w) = [UpdateChecked, Render]"
    by code_simp
  have o: "get_options ?w = Some [''red'', ''green'', ''blue'', ''all'']"
    by code_simp
  have c: "get_checked ?w = Some [''blue'', ''red'']"
    by code_simp
  have k: "map cvalue (filter cchecked (el ?w)) = [''red'', ''blue'', ''all'']"
    by code_simp
  then have n: "map cvalue (filter cchecked (el ?w)) \<noteq> [''blue'', ''red'']"
    by simp
  have d: "delivered ?w = []"
    by code_simp
  note t = handleChange_sets_checked_controls [OF r e o c n]
  have g: "get_checked (handleChange ?w) = Some [''all'']"
    using t [THEN conjunct2, THEN conjunct2, THEN conjunct1] k
    by (simp add: spec_reconcile_def)
  have l: "delivered (handleChange ?w) =
     [\<lparr>receiver = UpdateChecked, argument = [''red'', ''blue'', ''all''],
       observed = Some [''red'', ''blue'', ''all'']\<rparr>,
      \<lparr>receiver = Render, argument = [''red'', ''blue'', ''all''],
       observed = Some [''all'']\<rparr>]"
    using t [THEN conjunct2, THEN conjunct1] k d g by simp
  have "el (handleChange ?w) =
     [\<lparr>cvalue = ''red'', cchecked = False\<rparr>, \<lparr>cvalue = ''green'', cchecked = False\<rparr>,
      \<lparr>cvalue = ''blue'', cchecked = False\<rparr>, \<lparr>cvalue = ''all'', cchecked = True\<rparr>]"
    using t [THEN conjunct2, THEN conjunct2, THEN conjunct2, THEN conjunct1] k
    by (simp add: spec_reconcile_def)
  with g l r k show ?thesis
    by simp
qed

end
